theory Spec2Isabelle
  imports Main
begin

section \<open>The event conditions of \<open>ol/events/condition.js\<close>\<close>

text \<open>
  The module is a set of predicates over a map browser event. Each predicate reads a
  few fields of the event, of the browser event behind it (\<open>originalEvent\<close>) or of the
  pointer event behind it (\<open>pointerEvent\<close>), and some read the platform flags of
  \<open>has.js\<close>. A JavaScript call can end in a thrown exception, so a predicate that can
  throw returns \<open>error + bool\<close>, with \<open>Inl\<close> for the exception.
\<close>

subsection \<open>Data model\<close>

text \<open>
  The browser event: the modifier flags are booleans; \<open>button\<close> is a number on a mouse
  event and \<open>undefined\<close> (here \<open>None\<close>) on an event that has no button;
  \<open>target_tagName\<close> stands for \<open>originalEvent.target.tagName\<close>.
\<close>

record originalEvent =
  altKey :: bool
  shiftKey :: bool
  ctrlKey :: bool
  metaKey :: bool
  button :: "int option"
  target_tagName :: string

text \<open>
  The pointer event: \<open>pointerButton\<close> is the field \<open>button\<close> of the pointer event (the
  name \<open>button\<close> is taken by the browser event above).
\<close>

record pointerEvent =
  pointerType :: string
  isPrimary :: bool
  pointerButton :: int

text \<open>An element of the document, by identity.\<close>

type_synonym element = nat

text \<open>
  The map browser event. \<open>pointerEvent\<close> is \<open>None\<close> when the event does not come from
  a pointer event (the property is \<open>undefined\<close>). \<open>targetElement\<close> is what
  \<open>event.target.getTargetElement()\<close> returns, \<open>None\<close> for \<open>null\<close>.
\<close>

record mapBrowserEvent =
  type :: string
  originalEvent :: originalEvent
  pointerEvent :: "pointerEvent option"
  targetElement :: "element option"

text \<open>
  The imports of the module that are not part of it are parameters of the model: the
  two platform flags of \<open>has.js\<close>, and the three members of \<open>MapBrowserEventType\<close>
  that the module reads.
\<close>

record has =
  WEBKIT :: bool
  MAC :: bool

record MapBrowserEventType =
  CLICK :: string
  SINGLECLICK :: string
  DBLCLICK :: string

text \<open>
  The event names that the module's own documentation gives for the three members
  (\<open>click\<close>, \<open>singleclick\<close>, \<open>dblclick\<close>).
\<close>

definition documentedEventTypes :: MapBrowserEventType where
  "documentedEventTypes =
     \<lparr>CLICK = ''click'', SINGLECLICK = ''singleclick'', DBLCLICK = ''dblclick''\<rparr>"

text \<open>
  The two ways a call can fail: the assertion of \<open>asserts.js\<close> with its error code
  (the specification's PreconditionError), and the TypeError of JavaScript for a
  property read on \<open>undefined\<close>.
\<close>

datatype error = PreconditionError nat | TypeError

text \<open>
  Modelled from the spec: \<open>assert\<close> of \<open>asserts.js\<close> is not in the source tree. It
  takes the asserted value and an error code, and fails with PreconditionError when the
  value is falsy.
\<close>

definition assert :: "bool \<Rightarrow> nat \<Rightarrow> error + unit" where
  "assert assertion errorCode =
     (if assertion then Inr () else Inl (PreconditionError errorCode))"

text \<open>
  Modelled from the spec: \<open>TRUE\<close> and \<open>FALSE\<close> of \<open>functions.js\<close> are not in the
  source tree. They are the functions that return true and false for every argument.
\<close>

definition TRUE :: "'a \<Rightarrow> bool" where
  "TRUE x = True"

definition FALSE :: "'a \<Rightarrow> bool" where
  "FALSE x = False"

subsection \<open>The conditions\<close>

definition altKeyOnly :: "mapBrowserEvent \<Rightarrow> bool" where
  "altKeyOnly mbe =
     (let oe = originalEvent mbe
      in altKey oe \<and> \<not> (metaKey oe \<or> ctrlKey oe) \<and> \<not> shiftKey oe)"

definition altShiftKeysOnly :: "mapBrowserEvent \<Rightarrow> bool" where
  "altShiftKeysOnly mbe =
     (let oe = originalEvent mbe
      in altKey oe \<and> \<not> (metaKey oe \<or> ctrlKey oe) \<and> shiftKey oe)"

text \<open>\<open>focus\<close> compares the map's target element with \<open>document.activeElement\<close>.\<close>

definition focus :: "element option \<Rightarrow> mapBrowserEvent \<Rightarrow> bool" where
  "focus activeElement event = (targetElement event = activeElement)"

definition always :: "mapBrowserEvent \<Rightarrow> bool" where
  "always = TRUE"

definition click :: "MapBrowserEventType \<Rightarrow> mapBrowserEvent \<Rightarrow> bool" where
  "click T mbe = (type mbe = CLICK T)"

text \<open>\<open>undefined == 0\<close> is false in JavaScript, so an event with no button gives false.\<close>

definition mouseActionButton :: "has \<Rightarrow> mapBrowserEvent \<Rightarrow> bool" where
  "mouseActionButton H mbe =
     (let oe = originalEvent mbe
      in button oe = Some 0 \<and> \<not> (WEBKIT H \<and> MAC H \<and> ctrlKey oe))"

definition never :: "mapBrowserEvent \<Rightarrow> bool" where
  "never = FALSE"

definition pointerMove :: "mapBrowserEvent \<Rightarrow> bool" where
  "pointerMove mbe = (type mbe = ''pointermove'')"

definition singleClick :: "MapBrowserEventType \<Rightarrow> mapBrowserEvent \<Rightarrow> bool" where
  "singleClick T mbe = (type mbe = SINGLECLICK T)"

definition doubleClick :: "MapBrowserEventType \<Rightarrow> mapBrowserEvent \<Rightarrow> bool" where
  "doubleClick T mbe = (type mbe = DBLCLICK T)"

definition noModifierKeys :: "mapBrowserEvent \<Rightarrow> bool" where
  "noModifierKeys mbe =
     (let oe = originalEvent mbe
      in \<not> altKey oe \<and> \<not> (metaKey oe \<or> ctrlKey oe) \<and> \<not> shiftKey oe)"

definition platformModifierKeyOnly :: "has \<Rightarrow> mapBrowserEvent \<Rightarrow> bool" where
  "platformModifierKeyOnly H mbe =
     (let oe = originalEvent mbe
      in \<not> altKey oe \<and> (if MAC H then metaKey oe else ctrlKey oe) \<and> \<not> shiftKey oe)"

definition shiftKeyOnly :: "mapBrowserEvent \<Rightarrow> bool" where
  "shiftKeyOnly mbe =
     (let oe = originalEvent mbe
      in \<not> altKey oe \<and> \<not> (metaKey oe \<or> ctrlKey oe) \<and> shiftKey oe)"

definition targetNotEditable :: "mapBrowserEvent \<Rightarrow> bool" where
  "targetNotEditable mbe =
     (let tagName = target_tagName (originalEvent mbe)
      in tagName \<noteq> ''INPUT'' \<and> tagName \<noteq> ''SELECT'' \<and> tagName \<noteq> ''TEXTAREA'')"

text \<open>
  \<open>mouseOnly\<close> asserts that the pointer event is there (an object is truthy,
  \<open>undefined\<close> is falsy) and then reads its \<open>pointerType\<close>.
\<close>

definition mouseOnly :: "mapBrowserEvent \<Rightarrow> error + bool" where
  "mouseOnly mbe =
     (case assert (pointerEvent mbe \<noteq> None) 56 of
        Inl err \<Rightarrow> Inl err
      | Inr _ \<Rightarrow>
          (case pointerEvent mbe of
             None \<Rightarrow> Inl TypeError
           | Some pe \<Rightarrow> Inr (pointerType pe = ''mouse'')))"


subsection \<open>The specification's view of an event's type\<close>

text \<open>
  The specification speaks of the \<open>kind\<close> of an event, one of five values, where the
  code has the string \<open>type\<close>. The kind of an event is read off its type: the kind
  whose type constant the type equals, \<open>Other\<close> when it equals none.
\<close>

datatype kind = Click | SingleClick | DoubleClick | PointerMove | Other

definition kindOf :: "MapBrowserEventType \<Rightarrow> mapBrowserEvent \<Rightarrow> kind" where
  "kindOf T mbe =
     (if type mbe = CLICK T then Click
      else if type mbe = SINGLECLICK T then SingleClick
      else if type mbe = DBLCLICK T then DoubleClick
      else if type mbe = ''pointermove'' then PointerMove
      else Other)"

section \<open>Properties\<close>

subsection \<open>\<open>primaryAction\<close>\<close>




subsection \<open>\<open>mouseOnly\<close>\<close>

text \<open>
  C2: \<open>mouseOnly\<close> fails exactly when the event has no pointer info, and the failure
  is then the PreconditionError of the assertion (code 56); when the pointer info is
  present it returns, and it returns true exactly when the pointer type is \<open>mouse\<close>.
\<close>

theorem mouseOnly_spec:
  "((\<exists>err. mouseOnly mbe = Inl err) \<longleftrightarrow> pointerEvent mbe = None) \<and>
   (pointerEvent mbe = None \<longrightarrow> mouseOnly mbe = Inl (PreconditionError 56)) \<and>
   (\<forall>pe. pointerEvent mbe = Some pe \<longrightarrow> mouseOnly mbe = Inr (pointerType pe = ''mouse''))"
  by (cases "pointerEvent mbe") (simp_all add: mouseOnly_def assert_def)

theorem mouseOnly_spec_witness:
  "mouseOnly
     \<lparr>type = ''pointermove'',
      originalEvent = \<lparr>altKey = False, shiftKey = False, ctrlKey = False, metaKey = False,
        button = Some 0, target_tagName = ''DIV''\<rparr>,
      pointerEvent = Some \<lparr>pointerType = ''mouse'', isPrimary = True, pointerButton = 0\<rparr>,
      targetElement = None\<rparr> = Inr True \<and>
   mouseOnly
     \<lparr>type = ''click'',
      originalEvent = \<lparr>altKey = False, shiftKey = False, ctrlKey = False, metaKey = False,
        button = Some 0, target_tagName = ''DIV''\<rparr>,
      pointerEvent = None, targetElement = None\<rparr> = Inl (PreconditionError 56)"
  using
    mouseOnly_spec
      [of "\<lparr>type = ''pointermove'',
        originalEvent = \<lparr>altKey = False, shiftKey = False, ctrlKey = False, metaKey = False,
          button = Some 0, target_tagName = ''DIV''\<rparr>,
        pointerEvent = Some \<lparr>pointerType = ''mouse'', isPrimary = True, pointerButton = 0\<rparr>,
        targetElement = None\<rparr>"]
    mouseOnly_spec
      [of "\<lparr>type = ''click'',
        originalEvent = \<lparr>altKey = False, shiftKey = False, ctrlKey = False, metaKey = False,
          button = Some 0, target_tagName = ''DIV''\<rparr>,
        pointerEvent = None, targetElement = None\<rparr>"]
  by simp

subsection \<open>The modifier key conditions\<close>

text \<open>
  C3: for every setting of the four modifier flags, exactly one of five cases holds:
  \<open>altKeyOnly\<close>, \<open>altShiftKeysOnly\<close>, \<open>shiftKeyOnly\<close>, \<open>noModifierKeys\<close>, or none of
  the four; and no two of the four conditions hold together.
\<close>

theorem modifier_conditions_partition:
  "length (filter id
     [altKeyOnly mbe, altShiftKeysOnly mbe, shiftKeyOnly mbe, noModifierKeys mbe,
      \<not> (altKeyOnly mbe \<or> altShiftKeysOnly mbe \<or> shiftKeyOnly mbe \<or> noModifierKeys mbe)]) = 1 \<and>
   \<not> (altKeyOnly mbe \<and> altShiftKeysOnly mbe) \<and>
   \<not> (altKeyOnly mbe \<and> shiftKeyOnly mbe) \<and>
   \<not> (altKeyOnly mbe \<and> noModifierKeys mbe) \<and>
   \<not> (altShiftKeysOnly mbe \<and> shiftKeyOnly mbe) \<and>
   \<not> (altShiftKeysOnly mbe \<and> noModifierKeys mbe) \<and>
   \<not> (shiftKeyOnly mbe \<and> noModifierKeys mbe)"
  by (auto simp add: altKeyOnly_def altShiftKeysOnly_def shiftKeyOnly_def noModifierKeys_def Let_def)

text \<open>
  C4: \<open>platformModifierKeyOnly\<close> is true iff alt and shift are unset and the platform's
  modifier is set (meta on a Mac, ctrl elsewhere). Off a Mac the result does not change
  when \<open>metaKey\<close> is set to any value, and on a Mac it does not change when \<open>ctrlKey\<close>
  is.
\<close>

theorem platformModifierKeyOnly_spec:
  "platformModifierKeyOnly H mbe =
     (\<not> altKey (originalEvent mbe) \<and> \<not> shiftKey (originalEvent mbe) \<and>
      (if MAC H then metaKey (originalEvent mbe) else ctrlKey (originalEvent mbe))) \<and>
   (\<not> MAC H \<longrightarrow>
      platformModifierKeyOnly H (mbe\<lparr>originalEvent := (originalEvent mbe)\<lparr>metaKey := m\<rparr>\<rparr>) =
      platformModifierKeyOnly H mbe) \<and>
   (MAC H \<longrightarrow>
      platformModifierKeyOnly H (mbe\<lparr>originalEvent := (originalEvent mbe)\<lparr>ctrlKey := c\<rparr>\<rparr>) =
      platformModifierKeyOnly H mbe)"
  by (auto simp add: platformModifierKeyOnly_def Let_def)

theorem platformModifierKeyOnly_spec_witness:
  "platformModifierKeyOnly \<lparr>WEBKIT = False, MAC = False\<rparr>
     \<lparr>type = ''click'',
      originalEvent = \<lparr>altKey = False, shiftKey = False, ctrlKey = True, metaKey = True,
        button = Some 0, target_tagName = ''DIV''\<rparr>,
      pointerEvent = None, targetElement = None\<rparr> =
   platformModifierKeyOnly \<lparr>WEBKIT = False, MAC = False\<rparr>
     \<lparr>type = ''click'',
      originalEvent = \<lparr>altKey = False, shiftKey = False, ctrlKey = True, metaKey = False,
        button = Some 0, target_tagName = ''DIV''\<rparr>,
      pointerEvent = None, targetElement = None\<rparr> \<and>
   platformModifierKeyOnly \<lparr>WEBKIT = True, MAC = True\<rparr>
     \<lparr>type = ''click'',
      originalEvent = \<lparr>altKey = False, shiftKey = False, ctrlKey = False, metaKey = True,
        button = Some 0, target_tagName = ''DIV''\<rparr>,
      pointerEvent = None, targetElement = None\<rparr> =
   platformModifierKeyOnly \<lparr>WEBKIT = True, MAC = True\<rparr>
     \<lparr>type = ''click'',
      originalEvent = \<lparr>altKey = False, shiftKey = False, ctrlKey = True, metaKey = True,
        button = Some 0, target_tagName = ''DIV''\<rparr>,
      pointerEvent = None, targetElement = None\<rparr>"
  using
    platformModifierKeyOnly_spec
      [of "\<lparr>WEBKIT = False, MAC = False\<rparr>"
        "\<lparr>type = ''click'',
          originalEvent = \<lparr>altKey = False, shiftKey = False, ctrlKey = True, metaKey = False,
            button = Some 0, target_tagName = ''DIV''\<rparr>,
          pointerEvent = None, targetElement = None\<rparr>" True False]
    platformModifierKeyOnly_spec
      [of "\<lparr>WEBKIT = True, MAC = True\<rparr>"
        "\<lparr>type = ''click'',
          originalEvent = \<lparr>altKey = False, shiftKey = False, ctrlKey = True, metaKey = True,
            button = Some 0, target_tagName = ''DIV''\<rparr>,
          pointerEvent = None, targetElement = None\<rparr>" False False]
  by simp

subsection \<open>\<open>mouseActionButton\<close>\<close>

text \<open>
  C5: for every event and every setting of the two platform flags,
  \<open>mouseActionButton\<close> is true iff the button is 0 and it is not the case that the
  engine is WebKit, the platform a Mac and ctrl set; with any other button, or none, it
  is false whatever the flags are.
\<close>

theorem mouseActionButton_spec:
  "mouseActionButton H mbe =
     (button (originalEvent mbe) = Some 0 \<and>
      \<not> (WEBKIT H \<and> MAC H \<and> ctrlKey (originalEvent mbe))) \<and>
   (button (originalEvent mbe) \<noteq> Some 0 \<longrightarrow> \<not> mouseActionButton H mbe)"
  by (auto simp add: mouseActionButton_def Let_def)

theorem mouseActionButton_spec_witness:
  "\<not> mouseActionButton \<lparr>WEBKIT = False, MAC = False\<rparr>
     \<lparr>type = ''click'',
      originalEvent = \<lparr>altKey = False, shiftKey = False, ctrlKey = False, metaKey = False,
        button = Some 2, target_tagName = ''DIV''\<rparr>,
      pointerEvent = None, targetElement = None\<rparr>"
  using
    mouseActionButton_spec
      [of "\<lparr>WEBKIT = False, MAC = False\<rparr>"
        "\<lparr>type = ''click'',
          originalEvent = \<lparr>altKey = False, shiftKey = False, ctrlKey = False, metaKey = False,
            button = Some 2, target_tagName = ''DIV''\<rparr>,
          pointerEvent = None, targetElement = None\<rparr>"]
  by simp

subsection \<open>\<open>targetNotEditable\<close>\<close>

text \<open>
  C6: \<open>targetNotEditable\<close> is false exactly when the tag name is one of the strings
  \<open>INPUT\<close>, \<open>SELECT\<close>, \<open>TEXTAREA\<close>, and true for every other string; the empty string
  and the lowercase \<open>input\<close> are among the others.
\<close>

theorem targetNotEditable_spec:
  "targetNotEditable mbe =
     (target_tagName (originalEvent mbe) \<notin> {''INPUT'', ''SELECT'', ''TEXTAREA''}) \<and>
   (target_tagName (originalEvent mbe) = '''' \<longrightarrow> targetNotEditable mbe) \<and>
   (target_tagName (originalEvent mbe) = ''input'' \<longrightarrow> targetNotEditable mbe)"
  by (simp add: targetNotEditable_def Let_def)

theorem targetNotEditable_spec_witness:
  "targetNotEditable
     \<lparr>type = ''click'',
      originalEvent = \<lparr>altKey = False, shiftKey = False, ctrlKey = False, metaKey = False,
        button = Some 0, target_tagName = ''input''\<rparr>,
      pointerEvent = None, targetElement = None\<rparr> \<and>
   targetNotEditable
     \<lparr>type = ''click'',
      originalEvent = \<lparr>altKey = False, shiftKey = False, ctrlKey = False, metaKey = False,
        button = Some 0, target_tagName = ''''\<rparr>,
      pointerEvent = None, targetElement = None\<rparr> \<and>
   \<not> targetNotEditable
     \<lparr>type = ''click'',
      originalEvent = \<lparr>altKey = False, shiftKey = False, ctrlKey = False, metaKey = False,
        button = Some 0, target_tagName = ''INPUT''\<rparr>,
      pointerEvent = None, targetElement = None\<rparr>"
  using
    targetNotEditable_spec
      [of "\<lparr>type = ''click'',
        originalEvent = \<lparr>altKey = False, shiftKey = False, ctrlKey = False, metaKey = False,
          button = Some 0, target_tagName = ''input''\<rparr>,
        pointerEvent = None, targetElement = None\<rparr>"]
    targetNotEditable_spec
      [of "\<lparr>type = ''click'',
        originalEvent = \<lparr>altKey = False, shiftKey = False, ctrlKey = False, metaKey = False,
          button = Some 0, target_tagName = ''''\<rparr>,
        pointerEvent = None, targetElement = None\<rparr>"]
    targetNotEditable_spec
      [of "\<lparr>type = ''click'',
        originalEvent = \<lparr>altKey = False, shiftKey = False, ctrlKey = False, metaKey = False,
          button = Some 0, target_tagName = ''INPUT''\<rparr>,
        pointerEvent = None, targetElement = None\<rparr>"]
  by simp

subsection \<open>\<open>always\<close> and \<open>never\<close>\<close>

text \<open>
  C7: for every event, \<open>always\<close> returns true and \<open>never\<close> returns false. Neither has
  a failure branch: their results are plain booleans.
\<close>

theorem always_never_constant:
  "always mbe = True \<and> never mbe = False"
  by (simp add: always_def never_def TRUE_def FALSE_def)

subsection \<open>The event type conditions\<close>

text \<open>
  C8: when the type constants are pairwise distinct, \<open>click\<close> is true iff the event's
  kind is \<open>Click\<close>, \<open>singleClick\<close> iff it is \<open>SingleClick\<close>, \<open>doubleClick\<close> iff it is
  \<open>DoubleClick\<close> and \<open>pointerMove\<close> iff it is \<open>PointerMove\<close>; so each is false for
  every other kind.
\<close>

theorem event_type_conditions_kind:
  assumes "distinct [CLICK T, SINGLECLICK T, DBLCLICK T, ''pointermove'']"
  shows "click T mbe = (kindOf T mbe = Click) \<and>
         singleClick T mbe = (kindOf T mbe = SingleClick) \<and>
         doubleClick T mbe = (kindOf T mbe = DoubleClick) \<and>
         pointerMove mbe = (kindOf T mbe = PointerMove)"
  using assms
  by (auto simp add: click_def singleClick_def doubleClick_def pointerMove_def kindOf_def)

theorem event_type_conditions_kind_witness:
  "distinct [CLICK documentedEventTypes, SINGLECLICK documentedEventTypes,
     DBLCLICK documentedEventTypes, ''pointermove''] \<and>
   singleClick documentedEventTypes
     \<lparr>type = ''singleclick'',
      originalEvent = \<lparr>altKey = False, shiftKey = False, ctrlKey = False, metaKey = False,
        button = Some 0, target_tagName = ''DIV''\<rparr>,
      pointerEvent = None, targetElement = None\<rparr> \<and>
   \<not> click documentedEventTypes
     \<lparr>type = ''singleclick'',
      originalEvent = \<lparr>altKey = False, shiftKey = False, ctrlKey = False, metaKey = False,
        button = Some 0, target_tagName = ''DIV''\<rparr>,
      pointerEvent = None, targetElement = None\<rparr>"
proof -
  have d: "distinct [CLICK documentedEventTypes, SINGLECLICK documentedEventTypes,
     DBLCLICK documentedEventTypes, ''pointermove'']"
    by (simp add: documentedEventTypes_def)
  have k: "kindOf documentedEventTypes
     \<lparr>type = ''singleclick'',
      originalEvent = \<lparr>altKey = False, shiftKey = False, ctrlKey = False, metaKey = False,
        button = Some 0, target_tagName = ''DIV''\<rparr>,
      pointerEvent = None, targetElement = None\<rparr> = SingleClick"
    by (simp add: kindOf_def documentedEventTypes_def)
  show ?thesis
    using d k
      event_type_conditions_kind
        [OF d, of "\<lparr>type = ''singleclick'',
          originalEvent = \<lparr>altKey = False, shiftKey = False, ctrlKey = False, metaKey = False,
            button = Some 0, target_tagName = ''DIV''\<rparr>,
          pointerEvent = None, targetElement = None\<rparr>"]
    by simp
qed

text \<open>
  C10: the four conditions compare the one type of the event with pairwise distinct
  constants, so at most one of them is true of an event.
\<close>

theorem event_type_conditions_exclusive:
  assumes "distinct [CLICK T, SINGLECLICK T, DBLCLICK T, ''pointermove'']"
  shows "length (filter id
           [click T mbe, singleClick T mbe, doubleClick T mbe, pointerMove mbe]) \<le> 1"
  using assms
  by (auto simp add: click_def singleClick_def doubleClick_def pointerMove_def)

theorem event_type_conditions_exclusive_witness:
  "distinct [CLICK documentedEventTypes, SINGLECLICK documentedEventTypes,
     DBLCLICK documentedEventTypes, ''pointermove''] \<and>
   length (filter id
     [click documentedEventTypes
        \<lparr>type = ''dblclick'',
         originalEvent = \<lparr>altKey = False, shiftKey = False, ctrlKey = False, metaKey = False,
           button = Some 0, target_tagName = ''DIV''\<rparr>,
         pointerEvent = None, targetElement = None\<rparr>,
      singleClick documentedEventTypes
        \<lparr>type = ''dblclick'',
         originalEvent = \<lparr>altKey = False, shiftKey = False, ctrlKey = False, metaKey = False,
           button = Some 0, target_tagName = ''DIV''\<rparr>,
         pointerEvent = None, targetElement = None\<rparr>,
      doubleClick documentedEventTypes
        \<lparr>type = ''dblclick'',
         originalEvent = \<lparr>altKey = False, shiftKey = False, ctrlKey = False, metaKey = False,
           button = Some 0, target_tagName = ''DIV''\<rparr>,
         pointerEvent = None, targetElement = None\<rparr>,
      pointerMove
        \<lparr>type = ''dblclick'',
         originalEvent = \<lparr>altKey = False, shiftKey = False, ctrlKey = False, metaKey = False,
           button = Some 0, target_tagName = ''DIV''\<rparr>,
         pointerEvent = None, targetElement = None\<rparr>]) \<le> 1"
proof -
  have d: "distinct [CLICK documentedEventTypes, SINGLECLICK documentedEventTypes,
     DBLCLICK documentedEventTypes, ''pointermove'']"
    by (simp add: documentedEventTypes_def)
  show ?thesis
    using d
      event_type_conditions_exclusive
        [OF d, of "\<lparr>type = ''dblclick'',
          originalEvent = \<lparr>altKey = False, shiftKey = False, ctrlKey = False, metaKey = False,
            button = Some 0, target_tagName = ''DIV''\<rparr>,
          pointerEvent = None, targetElement = None\<rparr>"]
    by simp
qed

end
